theory Spec2Isabelle
  imports Complex_Main "HOL-Library.Multiset"
begin

section \<open>Numbers: Python and numpy floats\<close>

text \<open>
  The analyzer computes on IEEE-754 doubles (numpy \<open>float64\<close> scalars and pandas series).
  A float is modelled as a real number or one of the three special values. The model keeps
  the special values and what arithmetic does with them (division by zero gives an infinity
  or NaN and does not raise, NaN compares false with everything, NaN and the infinities are
  truthy) and leaves out overflow to an infinity and the sign of zero: zero divides like
  \<open>+0.0\<close>. The operations \<open>fadd\<close>, \<open>fmul\<close>, \<open>fdiv\<close>, \<open>fsqrt\<close> give the exact
  result; the operations \<open>radd\<close>, \<open>rmul\<close>, \<open>rdiv\<close>, \<open>rsqrt\<close> further below round it
  to a double.
\<close>

datatype pyfloat = Fin real | PInf | NInf | NaN

fun is_nan :: "pyfloat \<Rightarrow> bool" where
  "is_nan NaN = True"
| "is_nan _ = False"

fun is_finite :: "pyfloat \<Rightarrow> bool" where
  "is_finite (Fin _) = True"
| "is_finite _ = False"

text \<open>\<open>bool(x)\<close> of a float: only zero is falsy.\<close>

fun truthy :: "pyfloat \<Rightarrow> bool" where
  "truthy (Fin x) = (x \<noteq> 0)"
| "truthy _ = True"

text \<open>\<open>x > y\<close> and \<open>x < y\<close>: false as soon as one side is NaN.\<close>

fun fgt :: "pyfloat \<Rightarrow> pyfloat \<Rightarrow> bool" where
  "fgt NaN _ = False"
| "fgt _ NaN = False"
| "fgt (Fin x) (Fin y) = (x > y)"
| "fgt PInf PInf = False"
| "fgt PInf _ = True"
| "fgt NInf _ = False"
| "fgt (Fin _) NInf = True"
| "fgt (Fin _) PInf = False"

definition flt :: "pyfloat \<Rightarrow> pyfloat \<Rightarrow> bool" where
  "flt x y = fgt y x"

fun fneg :: "pyfloat \<Rightarrow> pyfloat" where
  "fneg (Fin x) = Fin (- x)"
| "fneg PInf = NInf"
| "fneg NInf = PInf"
| "fneg NaN = NaN"

fun fadd :: "pyfloat \<Rightarrow> pyfloat \<Rightarrow> pyfloat" where
  "fadd NaN _ = NaN"
| "fadd _ NaN = NaN"
| "fadd (Fin x) (Fin y) = Fin (x + y)"
| "fadd PInf NInf = NaN"
| "fadd NInf PInf = NaN"
| "fadd PInf _ = PInf"
| "fadd NInf _ = NInf"
| "fadd (Fin _) PInf = PInf"
| "fadd (Fin _) NInf = NInf"

definition fsub :: "pyfloat \<Rightarrow> pyfloat \<Rightarrow> pyfloat" where
  "fsub x y = fadd x (fneg y)"

text \<open>An infinity with the sign of a real factor; an infinity times zero is NaN.\<close>

definition inf_signed :: "real \<Rightarrow> pyfloat" where
  "inf_signed s = (if s > 0 then PInf else if s < 0 then NInf else NaN)"

fun fmul :: "pyfloat \<Rightarrow> pyfloat \<Rightarrow> pyfloat" where
  "fmul NaN _ = NaN"
| "fmul _ NaN = NaN"
| "fmul (Fin x) (Fin y) = Fin (x * y)"
| "fmul PInf PInf = PInf"
| "fmul PInf NInf = NInf"
| "fmul NInf PInf = NInf"
| "fmul NInf NInf = PInf"
| "fmul PInf (Fin y) = inf_signed y"
| "fmul NInf (Fin y) = inf_signed (- y)"
| "fmul (Fin x) PInf = inf_signed x"
| "fmul (Fin x) NInf = inf_signed (- x)"

text \<open>
  numpy division: a nonzero number over zero is an infinity, zero over zero and an
  infinity over an infinity are NaN; nothing raises.
\<close>

fun fdiv :: "pyfloat \<Rightarrow> pyfloat \<Rightarrow> pyfloat" where
  "fdiv NaN _ = NaN"
| "fdiv _ NaN = NaN"
| "fdiv (Fin x) (Fin y) = (if y = 0 then inf_signed x else Fin (x / y))"
| "fdiv (Fin _) PInf = Fin 0"
| "fdiv (Fin _) NInf = Fin 0"
| "fdiv PInf (Fin y) = (if y < 0 then NInf else PInf)"
| "fdiv NInf (Fin y) = (if y < 0 then PInf else NInf)"
| "fdiv PInf _ = NaN"
| "fdiv NInf _ = NaN"

fun fsqrt :: "pyfloat \<Rightarrow> pyfloat" where
  "fsqrt (Fin x) = (if x < 0 then NaN else Fin (sqrt x))"
| "fsqrt PInf = PInf"
| "fsqrt NInf = NaN"
| "fsqrt NaN = NaN"

text \<open>\<open>sum(xs)\<close>: the elements are added from the left, starting from the integer 0.\<close>

definition fsum :: "pyfloat list \<Rightarrow> pyfloat" where
  "fsum xs = foldl fadd (Fin 0) xs"

subsection \<open>Rounding\<close>

text \<open>
  An operation on doubles returns the double nearest to the exact result. The rounding of a
  real to the nearest double is the parameter \<open>r\<close> of the operations below and of the
  definitions that compute with them; nothing is fixed about it, and a statement that
  needs a property of it (zero is a double: \<open>r 0 = 0\<close>) says so. With the identity for
  \<open>r\<close> the arithmetic is exact. A literal such as \<open>0.40\<close> is the double \<open>r 0.40\<close>.
\<close>

fun fround :: "(real \<Rightarrow> real) \<Rightarrow> pyfloat \<Rightarrow> pyfloat" where
  "fround r (Fin x) = Fin (r x)"
| "fround r x = x"

definition radd :: "(real \<Rightarrow> real) \<Rightarrow> pyfloat \<Rightarrow> pyfloat \<Rightarrow> pyfloat" where
  "radd r x y = fround r (fadd x y)"

definition rsub :: "(real \<Rightarrow> real) \<Rightarrow> pyfloat \<Rightarrow> pyfloat \<Rightarrow> pyfloat" where
  "rsub r x y = fround r (fsub x y)"

definition rmul :: "(real \<Rightarrow> real) \<Rightarrow> pyfloat \<Rightarrow> pyfloat \<Rightarrow> pyfloat" where
  "rmul r x y = fround r (fmul x y)"

definition rdiv :: "(real \<Rightarrow> real) \<Rightarrow> pyfloat \<Rightarrow> pyfloat \<Rightarrow> pyfloat" where
  "rdiv r x y = fround r (fdiv x y)"

definition rsqrt :: "(real \<Rightarrow> real) \<Rightarrow> pyfloat \<Rightarrow> pyfloat" where
  "rsqrt r x = fround r (fsqrt x)"

definition rsum :: "(real \<Rightarrow> real) \<Rightarrow> pyfloat list \<Rightarrow> pyfloat" where
  "rsum r xs = foldl (radd r) (Fin 0) xs"

section \<open>Risk calculator\<close>

subsection \<open>Risk level\<close>

text \<open>
  \<open>RiskCalculator.assess_risk_level(sharpe_ratio, volatility)\<close>: two comparisons chained
  with \<open>and\<close>, an \<open>elif\<close> and a final \<open>else\<close>.
\<close>

definition assess_risk_level :: "pyfloat \<Rightarrow> pyfloat \<Rightarrow> string" where
  "assess_risk_level sharpe_ratio volatility =
     (if fgt sharpe_ratio (Fin 1.0) \<and> flt volatility (Fin 0.20) then ''Low Risk''
      else if fgt sharpe_ratio (Fin 0.5) \<and> flt volatility (Fin 0.30) then ''Medium Risk''
      else ''High Risk'')"

subsection \<open>Series\<close>

text \<open>
  A pandas \<open>Series\<close> of floats is a list of rows, each an index label (a date) with its
  value. The operations below keep the labels of the rows they keep.
\<close>

type_synonym 'i series = "('i \<times> pyfloat) list"

text \<open>
  \<open>Series.ffill()\<close>: a NaN takes the last value seen before it; a leading NaN stays.
\<close>

fun ffill_from :: "pyfloat \<Rightarrow> 'i series \<Rightarrow> 'i series" where
  "ffill_from seen [] = []"
| "ffill_from seen ((i, v) # rows) =
     (if is_nan v then (i, seen) # ffill_from seen rows else (i, v) # ffill_from v rows)"

definition ffill :: "'i series \<Rightarrow> 'i series" where
  "ffill s = ffill_from NaN s"

text \<open>
  \<open>Series.pct_change()\<close> computes \<open>data / data.shift(1) - 1\<close>: the first row has no
  predecessor and is NaN. Before pandas 3.0 the default \<open>fill_method='pad'\<close> forward-fills
  the data first; from 3.0 on nothing is filled. The flag \<open>pad\<close> selects between the two.
\<close>

fun pct_from :: "pyfloat \<Rightarrow> 'i series \<Rightarrow> 'i series" where
  "pct_from prev [] = []"
| "pct_from prev ((i, v) # rows) = (i, fsub (fdiv v prev) (Fin 1)) # pct_from v rows"

definition pct_change :: "bool \<Rightarrow> 'i series \<Rightarrow> 'i series" where
  "pct_change pad s =
     (case (if pad then ffill s else s) of
        [] \<Rightarrow> []
      | (i, v) # rows \<Rightarrow> (i, NaN) # pct_from v rows)"

definition dropna :: "'i series \<Rightarrow> 'i series" where
  "dropna s = filter (\<lambda>row. \<not> is_nan (snd row)) s"

text \<open>
  \<open>Series.mean()\<close> and \<open>Series.std()\<close> (sample standard deviation, \<open>ddof=1\<close>) skip NaN
  rows; the mean of no row is NaN, and the deviation of fewer than two rows is NaN.
  pandas computes \<open>avg = values.sum() / count\<close>, \<open>sqr = (avg - values) ** 2\<close> and the
  square root of \<open>sqr.sum() / (count - 1)\<close>, each step in doubles. The sums are taken
  from the left, as numpy takes them for fewer than eight rows; for more rows numpy adds
  in blocks, with the same result wherever the partial sums are exact, as they are for
  rows that are all zero.
\<close>

definition series_mean :: "(real \<Rightarrow> real) \<Rightarrow> 'i series \<Rightarrow> pyfloat" where
  "series_mean r s =
     (let vs = map snd (dropna s)
      in if vs = [] then NaN else rdiv r (rsum r vs) (Fin (real (length vs))))"

definition series_std :: "(real \<Rightarrow> real) \<Rightarrow> 'i series \<Rightarrow> pyfloat" where
  "series_std r s =
     (let vs = map snd (dropna s); count = length vs
      in if count \<le> 1 then NaN
         else let avg = rdiv r (rsum r vs) (Fin (real count));
                  sqr = map (\<lambda>v. rmul r (rsub r avg v) (rsub r avg v)) vs
              in rsqrt r (rdiv r (rsum r sqr) (Fin (real (count - 1)))))"

subsection \<open>Returns, volatility, Sharpe ratio\<close>

record risk_calculator =
  risk_free_rate :: pyfloat

text \<open>\<open>calculate_returns(prices)\<close>: \<open>prices.pct_change().dropna()\<close>. Nothing in it raises.\<close>

definition calculate_returns :: "bool \<Rightarrow> 'i series \<Rightarrow> 'i series" where
  "calculate_returns pad prices = dropna (pct_change pad prices)"

definition calculate_volatility :: "(real \<Rightarrow> real) \<Rightarrow> 'i series \<Rightarrow> bool \<Rightarrow> pyfloat" where
  "calculate_volatility r returns annualize =
     (let volatility = series_std r returns
      in if annualize then rmul r volatility (Fin (r (sqrt 252))) else volatility)"

text \<open>
  \<open>calculate_sharpe_ratio\<close>: the quotient is a numpy division, so a zero deviation gives
  an infinity or NaN and no \<open>ZeroDivisionError\<close>.
\<close>

definition calculate_sharpe_ratio ::
  "(real \<Rightarrow> real) \<Rightarrow> risk_calculator \<Rightarrow> 'i series \<Rightarrow> bool \<Rightarrow> pyfloat" where
  "calculate_sharpe_ratio r self returns annualize =
     (let mean_return = series_mean r returns;
          std_return = series_std r returns;
          mean_return = (if annualize then rmul r mean_return (Fin 252) else mean_return);
          std_return = (if annualize then rmul r std_return (Fin (r (sqrt 252)))
                        else std_return)
      in rdiv r (rsub r mean_return (risk_free_rate self)) std_return)"

text \<open>
  Two neighbouring prices whose quotient is NaN although neither is: both zero, or both
  infinite.
\<close>

fun quotients_defined :: "pyfloat list \<Rightarrow> bool" where
  "quotients_defined (x # y # zs) =
     (\<not> (x = Fin 0 \<and> y = Fin 0) \<and> \<not> (\<not> is_finite x \<and> \<not> is_finite y)
      \<and> quotients_defined (y # zs))"
| "quotients_defined _ = True"

section \<open>Portfolio analyzer\<close>

subsection \<open>Dictionaries and errors\<close>

text \<open>
  A Python \<open>dict\<close> is a list of key-value rows in insertion order with distinct keys.
  \<open>d[k] = v\<close> replaces the value of a key that is present, in place, and appends a new
  key; \<open>d[k]\<close> of a missing key raises \<open>KeyError\<close>; \<open>d.get(k, default)\<close> does not.
  \<open>KeyError\<close> is the one exception the analyzer's own code raises; the calculator can
  also end with an \<open>AttributeError\<close>, when no price frame has a \<open>Close\<close> column.
\<close>

type_synonym ('k, 'v) dict = "('k \<times> 'v) list"

datatype error = KeyError string | AttributeError string

fun dict_set :: "('k, 'v) dict \<Rightarrow> 'k \<Rightarrow> 'v \<Rightarrow> ('k, 'v) dict" where
  "dict_set [] k v = [(k, v)]"
| "dict_set ((k', v') # d) k v =
     (if k' = k then (k, v) # d else (k', v') # dict_set d k v)"

definition dict_item :: "(string, 'v) dict \<Rightarrow> string \<Rightarrow> error + 'v" where
  "dict_item d k = (case map_of d k of None \<Rightarrow> Inl (KeyError k) | Some v \<Rightarrow> Inr v)"

definition dict_get :: "('k, 'v) dict \<Rightarrow> 'k \<Rightarrow> 'v \<Rightarrow> 'v" where
  "dict_get d k dflt = (case map_of d k of None \<Rightarrow> dflt | Some v \<Rightarrow> v)"

subsection \<open>The data provider\<close>

text \<open>
  \<open>StockDataFetcher\<close> asks the market data service and turns every failure into
  \<open>None\<close>. Its three methods are the answers of the provider: the latest close of a
  ticker, the info record of a ticker, and the price frame of a ticker over a period.
  One function stands for the answers during one operation.
\<close>

record stock_info =
  name :: string
  sector :: string
  industry :: string
  market_cap :: pyfloat
  pe_ratio :: pyfloat

record 'df fetcher =
  get_current_price :: "string \<Rightarrow> pyfloat option"
  get_stock_info :: "string \<Rightarrow> stock_info option"
  fetch_stock_data :: "string \<Rightarrow> string \<Rightarrow> 'df option"

definition fetch_portfolio_data ::
  "'df fetcher \<Rightarrow> string list \<Rightarrow> string \<Rightarrow> (string, 'df) dict" where
  "fetch_portfolio_data f tickers period =
     fold (\<lambda>ticker portfolio_data.
             case fetch_stock_data f ticker period of
               None \<Rightarrow> portfolio_data
             | Some data \<Rightarrow> dict_set portfolio_data ticker data)
          tickers []"

subsection \<open>The analyzer object\<close>

record holding =
  shares :: pyfloat
  purchase_price :: "pyfloat option"

record 'df analyzer =
  fetcher :: "'df fetcher"
  calculator :: risk_calculator
  portfolio_data :: "(string, 'df) dict"
  holdings :: "(string, holding) dict"

text \<open>
  Every method takes the object and returns its result with the object as the method
  leaves it; a method that raises returns the error with the object as it is then.
\<close>

definition init :: "'df fetcher \<Rightarrow> pyfloat \<Rightarrow> 'df analyzer" where
  "init f rate =
     \<lparr>fetcher = f, calculator = \<lparr>risk_free_rate = rate\<rparr>, portfolio_data = [], holdings = []\<rparr>"

definition add_holding ::
  "string \<Rightarrow> pyfloat \<Rightarrow> pyfloat option \<Rightarrow> 'df analyzer \<Rightarrow> 'df analyzer" where
  "add_holding ticker n price self =
     self\<lparr>holdings :=
            dict_set (holdings self) ticker \<lparr>shares = n, purchase_price = price\<rparr>\<rparr>"

definition load_portfolio_data :: "string \<Rightarrow> 'df analyzer \<Rightarrow> bool \<times> 'df analyzer" where
  "load_portfolio_data period self =
     (let tickers = map fst (holdings self)
      in if tickers = [] then (False, self)
         else let self = self\<lparr>portfolio_data :=
                                 fetch_portfolio_data (fetcher self) tickers period\<rparr>
              in (length (portfolio_data self) > 0, self))"

subsection \<open>Valuation\<close>

record position =
  pos_shares :: pyfloat
  current_price :: pyfloat
  position_value :: pyfloat
  pos_purchase_price :: "pyfloat option"
  gain_loss :: "pyfloat option"
  gain_loss_pct :: "pyfloat option"

record weighted_position = position +
  weight :: pyfloat

record valuation =
  total_value :: pyfloat
  positions :: "(string, weighted_position) dict"

text \<open>
  \<open>if current_price:\<close> and \<open>if holding['purchase_price']:\<close> are truthiness tests:
  \<open>None\<close> and zero fail them, every other float passes.
\<close>

definition present :: "pyfloat option \<Rightarrow> bool" where
  "present x = (case x of None \<Rightarrow> False | Some v \<Rightarrow> truthy v)"

text \<open>
  The body of the first loop of \<open>calculate_portfolio_value\<close>, for one holding:
  \<open>make_position\<close> is the dictionary stored under the ticker when the price passes
  the test, \<open>value_step\<close> the update of \<open>total_value\<close> and \<open>positions\<close>.
\<close>

definition make_position :: "pyfloat \<Rightarrow> holding \<Rightarrow> position" where
  "make_position price h =
     (let p_value = fmul price (shares h);
          gain = (case purchase_price h of
                    None \<Rightarrow> None
                  | Some paid \<Rightarrow>
                      if truthy paid then Some (fmul (fsub price paid) (shares h)) else None);
          gain_pct = (case purchase_price h of
                        None \<Rightarrow> None
                      | Some paid \<Rightarrow>
                          if truthy paid
                          then Some (fmul (fsub (fdiv price paid) (Fin 1)) (Fin 100))
                          else None)
      in \<lparr>pos_shares = shares h, current_price = price, position_value = p_value,
          pos_purchase_price = purchase_price h, gain_loss = gain,
          gain_loss_pct = gain_pct\<rparr>)"

definition value_step ::
  "'df fetcher \<Rightarrow> string \<times> holding \<Rightarrow> pyfloat \<times> (string, position) dict
     \<Rightarrow> pyfloat \<times> (string, position) dict" where
  "value_step f item acc =
     (case (item, acc) of ((ticker, h), (tot, ps)) \<Rightarrow>
        (case get_current_price f ticker of
           None \<Rightarrow> (tot, ps)
         | Some price \<Rightarrow>
             if truthy price
             then (fadd tot (position_value (make_position price h)),
                   dict_set ps ticker (make_position price h))
             else (tot, ps)))"

text \<open>The second loop: \<open>positions[ticker]['weight'] = position_value / total_value\<close>.\<close>

definition set_weight :: "pyfloat \<Rightarrow> position \<Rightarrow> weighted_position" where
  "set_weight tot p =
     \<lparr>pos_shares = pos_shares p, current_price = current_price p,
      position_value = position_value p, pos_purchase_price = pos_purchase_price p,
      gain_loss = gain_loss p, gain_loss_pct = gain_loss_pct p,
      weight = fdiv (position_value p) tot\<rparr>"

definition calculate_portfolio_value :: "'df analyzer \<Rightarrow> valuation \<times> 'df analyzer" where
  "calculate_portfolio_value self =
     (let (tot, ps) = fold (value_step (fetcher self)) (holdings self) (Fin 0, [])
      in (\<lparr>total_value = tot,
           positions = map (\<lambda>(ticker, p). (ticker, set_weight tot p)) ps\<rparr>, self))"

text \<open>
  The valuation in doubles: the same method with the rounding of every operation written
  out. \<open>calculate_portfolio_value\<close> above is its form in exact arithmetic, the one with the
  identity for \<open>r\<close>.
\<close>

definition make_position_fl :: "(real \<Rightarrow> real) \<Rightarrow> pyfloat \<Rightarrow> holding \<Rightarrow> position" where
  "make_position_fl r price h =
     (let p_value = rmul r price (shares h);
          gain = (case purchase_price h of
                    None \<Rightarrow> None
                  | Some paid \<Rightarrow>
                      if truthy paid then Some (rmul r (rsub r price paid) (shares h))
                      else None);
          gain_pct = (case purchase_price h of
                        None \<Rightarrow> None
                      | Some paid \<Rightarrow>
                          if truthy paid
                          then Some (rmul r (rsub r (rdiv r price paid) (Fin 1)) (Fin 100))
                          else None)
      in \<lparr>pos_shares = shares h, current_price = price, position_value = p_value,
          pos_purchase_price = purchase_price h, gain_loss = gain,
          gain_loss_pct = gain_pct\<rparr>)"

definition value_step_fl ::
  "(real \<Rightarrow> real) \<Rightarrow> 'df fetcher \<Rightarrow> string \<times> holding \<Rightarrow> pyfloat \<times> (string, position) dict
     \<Rightarrow> pyfloat \<times> (string, position) dict" where
  "value_step_fl r f item acc =
     (case (item, acc) of ((ticker, h), (tot, ps)) \<Rightarrow>
        (case get_current_price f ticker of
           None \<Rightarrow> (tot, ps)
         | Some price \<Rightarrow>
             if truthy price
             then (radd r tot (position_value (make_position_fl r price h)),
                   dict_set ps ticker (make_position_fl r price h))
             else (tot, ps)))"

definition set_weight_fl :: "(real \<Rightarrow> real) \<Rightarrow> pyfloat \<Rightarrow> position \<Rightarrow> weighted_position" where
  "set_weight_fl r tot p =
     \<lparr>pos_shares = pos_shares p, current_price = current_price p,
      position_value = position_value p, pos_purchase_price = pos_purchase_price p,
      gain_loss = gain_loss p, gain_loss_pct = gain_loss_pct p,
      weight = rdiv r (position_value p) tot\<rparr>"

definition calculate_portfolio_value_fl ::
  "(real \<Rightarrow> real) \<Rightarrow> 'df analyzer \<Rightarrow> valuation \<times> 'df analyzer" where
  "calculate_portfolio_value_fl r self =
     (let (tot, ps) = fold (value_step_fl r (fetcher self)) (holdings self) (Fin 0, [])
      in (\<lparr>total_value = tot,
           positions = map (\<lambda>(ticker, p). (ticker, set_weight_fl r tot p)) ps\<rparr>, self))"

subsection \<open>Diversification\<close>

record diversification =
  num_holdings :: nat
  num_sectors :: nat
  sector_allocation :: "(string, pyfloat) dict"
  top_position_weight :: pyfloat
  top_3_weight :: pyfloat
  diversification_score :: real

text \<open>
  The loop over \<open>self.holdings.keys()\<close> that adds each position value to its sector.
  \<open>get_stock_info\<close> answers \<open>None\<close> or a dictionary that always has the key
  \<open>'sector'\<close>, so \<open>info and 'sector' in info\<close> asks whether there is an answer. The
  position is read with \<open>portfolio_value['positions'][ticker]\<close>, which raises for a
  ticker that the valuation left out.
\<close>

fun sector_values ::
  "(real \<Rightarrow> real) \<Rightarrow> 'df fetcher \<Rightarrow> (string, weighted_position) dict \<Rightarrow> string list
     \<Rightarrow> (string, pyfloat) dict \<Rightarrow> error + (string, pyfloat) dict" where
  "sector_values r f ps [] sectors = Inr sectors"
| "sector_values r f ps (ticker # tickers) sectors =
     (case get_stock_info f ticker of
        None \<Rightarrow> sector_values r f ps tickers sectors
      | Some info \<Rightarrow>
          (case dict_item ps ticker of
             Inl e \<Rightarrow> Inl e
           | Inr p \<Rightarrow>
               sector_values r f ps tickers
                 (dict_set sectors (sector info)
                    (case map_of sectors (sector info) of
                       Some v \<Rightarrow> radd r v (position_value p)
                     | None \<Rightarrow> position_value p))))"

text \<open>
  \<open>sorted(weights, reverse=True)\<close>. On floats without NaN every sorting algorithm gives
  the one descending list. With a NaN among them Python's result depends on its sorting
  algorithm; the list below is then the result of inserting by \<open>>\<close>.
\<close>

fun insert_desc :: "pyfloat \<Rightarrow> pyfloat list \<Rightarrow> pyfloat list" where
  "insert_desc x [] = [x]"
| "insert_desc x (y # ys) = (if fgt x y then x # y # ys else y # insert_desc x ys)"

definition sorted_desc :: "pyfloat list \<Rightarrow> pyfloat list" where
  "sorted_desc xs = foldr insert_desc xs []"

text \<open>
  \<open>round(x, 1)\<close>: the nearest multiple of one tenth, a tie going to the even one.
\<close>

definition round_half_even :: "real \<Rightarrow> int" where
  "round_half_even y =
     (let f = \<lfloor>y\<rfloor>; d = y - of_int f
      in if d < 1 / 2 then f else if d > 1 / 2 then f + 1
         else if even f then f else f + 1)"

definition round1 :: "real \<Rightarrow> real" where
  "round1 x = of_int (round_half_even (x * 10)) / 10"

text \<open>
  \<open>analyze_diversification\<close> in doubles. The sector values, the sector weights and the
  sum of the top three weights are rounded, and the weights are compared with the doubles
  \<open>0.40\<close> and \<open>0.70\<close>. The score itself is a count times 0.5 plus a count times 1.5,
  less 2 and less 1: multiples of one half, which doubles hold exactly.
\<close>

definition analyze_diversification ::
  "(real \<Rightarrow> real) \<Rightarrow> 'df analyzer \<Rightarrow> (error + diversification) \<times> 'df analyzer" where
  "analyze_diversification r self =
     (let (portfolio_value, self) = calculate_portfolio_value_fl r self
      in case sector_values r (fetcher self) (positions portfolio_value)
                (map fst (holdings self)) [] of
           Inl e \<Rightarrow> (Inl e, self)
         | Inr sectors \<Rightarrow>
             let tot = total_value portfolio_value;
                 sector_weights = map (\<lambda>(s, v). (s, rdiv r v tot)) sectors;
                 n_holdings = length (holdings self);
                 n_sectors = length sectors;
                 sorted_weights = sorted_desc (map (weight \<circ> snd) (positions portfolio_value));
                 top_position = (case sorted_weights of [] \<Rightarrow> Fin 0 | w # _ \<Rightarrow> w);
                 top_3 = (if length sorted_weights \<ge> 3 then rsum r (take 3 sorted_weights)
                          else rsum r sorted_weights);
                 score = min 10 (real n_holdings * 0.5 + real n_sectors * 1.5);
                 score = (if fgt top_position (Fin (r 0.40)) then score - 2 else score);
                 score = (if fgt top_3 (Fin (r 0.70)) then score - 1 else score);
                 score = max 0 score
             in (Inr \<lparr>num_holdings = n_holdings, num_sectors = n_sectors,
                      sector_allocation = sector_weights,
                      top_position_weight = top_position, top_3_weight = top_3,
                      diversification_score = round1 score\<rparr>, self))"

subsection \<open>Risk metrics\<close>

record metrics =
  annual_return :: pyfloat
  volatility :: pyfloat
  sharpe_ratio :: pyfloat
  var_95 :: pyfloat
  max_drawdown :: pyfloat

record risk_metrics = metrics +
  risk_level :: string

text \<open>
  \<open>RiskCalculator.calculate_portfolio_metrics(portfolio_data, weights)\<close> is the pandas
  pipeline of the calculator over the price frames. It is an object of its own, called
  with the price frames and a fresh dictionary of weights, and it returns five numbers or
  raises; it is the parameter \<open>portfolio_metrics\<close> of the two methods that reach it.
\<close>

type_synonym 'df portfolio_metrics =
  "risk_calculator \<Rightarrow> (string, 'df) dict \<Rightarrow> (string, pyfloat) dict \<Rightarrow> error + metrics"

definition calculate_risk_metrics ::
  "'df portfolio_metrics \<Rightarrow> 'df analyzer \<Rightarrow> (error + risk_metrics option) \<times> 'df analyzer" where
  "calculate_risk_metrics portfolio_metrics self =
     (if portfolio_data self = [] then (Inr None, self)
      else let (portfolio_value, self) = calculate_portfolio_value self;
               weights = map (\<lambda>(ticker, pos). (ticker, weight pos)) (positions portfolio_value)
           in case portfolio_metrics (calculator self) (portfolio_data self) weights of
                Inl e \<Rightarrow> (Inl e, self)
              | Inr m \<Rightarrow>
                  (Inr (Some \<lparr>annual_return = annual_return m, volatility = volatility m,
                              sharpe_ratio = sharpe_ratio m, var_95 = var_95 m,
                              max_drawdown = max_drawdown m,
                              risk_level = assess_risk_level (sharpe_ratio m) (volatility m)\<rparr>),
                   self))"

subsection \<open>Rebalancing\<close>

record recommendation =
  current_weight :: pyfloat
  target_weight :: pyfloat
  difference_pct :: pyfloat
  dollar_difference :: pyfloat
  shares_to_trade :: pyfloat
  action :: string

text \<open>
  The loop of \<open>get_rebalancing_recommendations\<close> over \<open>self.holdings.keys()\<close>. The two
  weights are read with \<open>.get(ticker, 0)\<close>, the current price with
  \<open>portfolio_value['positions'][ticker]['current_price']\<close>.
\<close>

fun recommend ::
  "valuation \<Rightarrow> (string, pyfloat) dict \<Rightarrow> (string, pyfloat) dict \<Rightarrow> string list
     \<Rightarrow> (string, recommendation) dict \<Rightarrow> error + (string, recommendation) dict" where
  "recommend pv current_weights target_weights [] recs = Inr recs"
| "recommend pv current_weights target_weights (ticker # tickers) recs =
     (let cur = dict_get current_weights ticker (Fin 0);
          target = dict_get target_weights ticker (Fin 0);
          difference = fsub target cur;
          dollars = fmul difference (total_value pv)
      in case dict_item (positions pv) ticker of
           Inl e \<Rightarrow> Inl e
         | Inr p \<Rightarrow>
             let trade = fdiv dollars (current_price p)
             in recommend pv current_weights target_weights tickers
                  (dict_set recs ticker
                     \<lparr>current_weight = cur, target_weight = target,
                      difference_pct = difference, dollar_difference = dollars,
                      shares_to_trade = trade,
                      action = (if fgt trade (Fin 0) then ''BUY''
                                else if flt trade (Fin 0) then ''SELL'' else ''HOLD'')\<rparr>))"

definition get_rebalancing_recommendations ::
  "(string, pyfloat) dict option \<Rightarrow> 'df analyzer
     \<Rightarrow> (error + (string, recommendation) dict) \<times> 'df analyzer" where
  "get_rebalancing_recommendations target_weights self =
     (let (portfolio_value, self) = calculate_portfolio_value self;
          current_weights =
            map (\<lambda>(ticker, pos). (ticker, weight pos)) (positions portfolio_value);
          target_weights =
            (case target_weights of
               None \<Rightarrow> map (\<lambda>(ticker, h). (ticker, Fin (1 / real (length (holdings self)))))
                         (holdings self)
             | Some given \<Rightarrow> given)
      in (recommend portfolio_value current_weights target_weights
            (map fst (holdings self)) [], self))"

subsection \<open>Report\<close>

record report =
  rep_valuation :: valuation
  rep_diversification :: diversification
  rep_risk_metrics :: "risk_metrics option"

text \<open>
  \<open>generate_portfolio_report\<close> builds the dictionary of the three sections in the order
  written; the first section that raises ends the call.
\<close>

definition generate_portfolio_report ::
  "(real \<Rightarrow> real) \<Rightarrow> 'df portfolio_metrics \<Rightarrow> 'df analyzer
     \<Rightarrow> (error + report) \<times> 'df analyzer" where
  "generate_portfolio_report r portfolio_metrics self =
     (let (v, self) = calculate_portfolio_value_fl r self
      in case analyze_diversification r self of
           (Inl e, self) \<Rightarrow> (Inl e, self)
         | (Inr d, self) \<Rightarrow>
             (case calculate_risk_metrics portfolio_metrics self of
                (Inl e, self) \<Rightarrow> (Inl e, self)
              | (Inr m, self) \<Rightarrow>
                  (Inr \<lparr>rep_valuation = v, rep_diversification = d, rep_risk_metrics = m\<rparr>,
                   self)))"

subsection \<open>A provider with given answers\<close>

text \<open>
  The provider that knows the listed prices and sectors and nothing else; the example
  portfolios below are valued against it.
\<close>

definition quotes :: "(string, pyfloat) dict \<Rightarrow> (string, string) dict \<Rightarrow> unit fetcher" where
  "quotes prices sectors =
     \<lparr>get_current_price = map_of prices,
      get_stock_info =
        (\<lambda>ticker. case map_of sectors ticker of
                    None \<Rightarrow> None
                  | Some s \<Rightarrow> Some \<lparr>name = ticker, sector = s, industry = ''N/A'',
                                    market_cap = Fin 0, pe_ratio = Fin 0\<rparr>),
      fetch_stock_data = (\<lambda>ticker period. None)\<rparr>"

section \<open>Properties\<close>

lemma fgt_NaN_right [simp]: "fgt x NaN = False"
  by (cases x) simp_all

lemma flt_NaN_left [simp]: "flt NaN y = False"
  by (simp add: flt_def)

lemma flt_NaN_right [simp]: "flt x NaN = False"
  by (simp add: flt_def)

text \<open>
  C8. \<open>assess_risk_level\<close> is total on floats: every pair of inputs, NaN included, gets
  exactly one of the three labels, and it is \<open>High Risk\<close> whenever neither
  (\<open>sharpe > 1.0\<close> and \<open>volatility < 0.20\<close>) nor (\<open>sharpe > 0.5\<close> and
  \<open>volatility < 0.30\<close>) holds, in particular whenever one of the inputs is NaN.
\<close>

theorem assess_risk_level_total:
  "assess_risk_level s v \<in> {''Low Risk'', ''Medium Risk'', ''High Risk''}
   \<and> (\<not> (fgt s (Fin 1.0) \<and> flt v (Fin 0.20)) \<and> \<not> (fgt s (Fin 0.5) \<and> flt v (Fin 0.30))
        \<longrightarrow> assess_risk_level s v = ''High Risk'')
   \<and> (is_nan s \<or> is_nan v \<longrightarrow> assess_risk_level s v = ''High Risk'')"
proof -
  have nan: "is_nan s \<or> is_nan v \<Longrightarrow> assess_risk_level s v = ''High Risk''"
    by (cases s; cases v) (simp_all add: assess_risk_level_def)
  show ?thesis
    using nan by (simp add: assess_risk_level_def)
qed

theorem assess_risk_level_total_witness:
  "assess_risk_level NaN (Fin 0.1) = ''High Risk''
   \<and> assess_risk_level (Fin 0.4) (Fin 0.1) = ''High Risk''
   \<and> assess_risk_level (Fin 2) (Fin 0.1) = ''Low Risk''
   \<and> assess_risk_level (Fin 0.8) (Fin 0.25) = ''Medium Risk''"
proof -
  have a: "assess_risk_level NaN (Fin 0.1) = ''High Risk''"
    using assess_risk_level_total [of NaN "Fin 0.1"] by simp
  have b: "assess_risk_level (Fin 0.4) (Fin 0.1) = ''High Risk''"
    using assess_risk_level_total [of "Fin 0.4" "Fin 0.1"] by simp
  have c: "assess_risk_level (Fin 2) (Fin 0.1) = ''Low Risk''"
    by (simp add: assess_risk_level_def flt_def)
  have d: "assess_risk_level (Fin 0.8) (Fin 0.25) = ''Medium Risk''"
    by (simp add: assess_risk_level_def flt_def)
  show ?thesis using a b c d by simp
qed

subsection \<open>Daily returns\<close>

lemma ffill_from_id: "\<forall>row\<in>set s. \<not> is_nan (snd row) \<Longrightarrow> ffill_from seen s = s"
  by (induction s arbitrary: seen) auto

lemma fdiv_nan_iff:
  "is_nan (fdiv x y) \<longleftrightarrow>
     is_nan x \<or> is_nan y \<or> (x = Fin 0 \<and> y = Fin 0) \<or> (\<not> is_finite x \<and> \<not> is_finite y)"
  by (cases x; cases y) (auto simp: inf_signed_def)

lemma fsub_one_nan_iff: "is_nan (fsub q (Fin 1)) \<longleftrightarrow> is_nan q"
  by (cases q) (simp_all add: fsub_def)

lemma length_pct_from: "length (pct_from prev rows) = length rows"
  by (induction rows arbitrary: prev) auto

lemma nth_pct_from:
  "i < length rows \<Longrightarrow>
   pct_from prev rows ! i =
     (fst (rows ! i), fsub (fdiv (snd (rows ! i)) ((prev # map snd rows) ! i)) (Fin 1))"
proof (induction rows arbitrary: prev i)
  case Nil
  then show ?case by simp
next
  case (Cons row rows)
  obtain l v where row: "row = (l, v)" by (cases row)
  show ?case
  proof (cases i)
    case 0
    then show ?thesis by (simp add: row)
  next
    case (Suc j)
    with Cons.prems have "j < length rows" by simp
    from Cons.IH [OF this, of v] show ?thesis by (simp add: row Suc)
  qed
qed

lemma dropna_pct_from:
  "\<not> is_nan prev \<Longrightarrow> \<forall>row\<in>set rows. \<not> is_nan (snd row) \<Longrightarrow>
   quotients_defined (prev # map snd rows) \<Longrightarrow>
   dropna (pct_from prev rows) = pct_from prev rows"
proof (induction rows arbitrary: prev)
  case Nil
  then show ?case by (simp add: dropna_def)
next
  case (Cons row rows)
  obtain l v where row: "row = (l, v)" by (cases row)
  from Cons.prems have v: "\<not> is_nan v" and rest: "\<forall>r\<in>set rows. \<not> is_nan (snd r)"
    and q: "quotients_defined (v # map snd rows)"
    and pair: "\<not> (prev = Fin 0 \<and> v = Fin 0)" "\<not> (\<not> is_finite prev \<and> \<not> is_finite v)"
    by (auto simp: row)
  have "\<not> is_nan (fsub (fdiv v prev) (Fin 1))"
    using Cons.prems(1) v pair by (auto simp: fsub_one_nan_iff fdiv_nan_iff)
  moreover have "dropna (pct_from v rows) = pct_from v rows"
    by (rule Cons.IH [OF v rest q])
  ultimately show ?case by (simp add: row dropna_def)
qed

lemma calculate_returns_defined:
  assumes "\<forall>row\<in>set prices. \<not> is_nan (snd row)"
    and "quotients_defined (map snd prices)"
    and "prices = (l, v) # rows"
  shows "calculate_returns pad prices = pct_from v rows"
proof -
  have "pct_change pad prices = (l, NaN) # pct_from v rows"
    using assms(1,3) by (simp add: pct_change_def ffill_def ffill_from_id)
  moreover have "dropna (pct_from v rows) = pct_from v rows"
    using assms by (intro dropna_pct_from) auto
  ultimately show ?thesis by (simp add: calculate_returns_def dropna_def)
qed

text \<open>
  C3 (amended). For every price series of length at least 2 in which no price is NaN and no
  two neighbouring prices are both zero or both infinite, \<open>calculate_returns\<close> returns a
  series of length \<open>len(prices) - 1\<close> whose row for position \<open>i\<close> (from 1) carries the
  label of \<open>prices[i]\<close> and the value \<open>prices[i] / prices[i-1] - 1\<close>, under either pandas
  default of \<open>fill_method\<close>.
\<close>

theorem calculate_returns_values:
  assumes "2 \<le> length prices"
    and "\<forall>row\<in>set prices. \<not> is_nan (snd row)"
    and "quotients_defined (map snd prices)"
  shows "length (calculate_returns pad prices) = length prices - 1
       \<and> (\<forall>i. 1 \<le> i \<and> i < length prices \<longrightarrow>
            calculate_returns pad prices ! (i - 1) =
              (fst (prices ! i),
               fsub (fdiv (snd (prices ! i)) (snd (prices ! (i - 1)))) (Fin 1)))"
proof -
  from assms(1) obtain l v rows where p: "prices = (l, v) # rows"
    by (cases prices) auto
  have r: "calculate_returns pad prices = pct_from v rows"
    by (rule calculate_returns_defined [OF assms(2,3) p])
  have len: "length (calculate_returns pad prices) = length prices - 1"
    unfolding r by (simp add: p length_pct_from)
  have nth: "calculate_returns pad prices ! (i - 1) =
      (fst (prices ! i), fsub (fdiv (snd (prices ! i)) (snd (prices ! (i - 1)))) (Fin 1))"
    if "1 \<le> i" "i < length prices" for i
  proof -
    from that obtain j where i: "i = Suc j" by (cases i) auto
    with that p have j: "j < length rows" by simp
    have "(v # map snd rows) ! j = snd (prices ! j)"
      using j by (cases j) (simp_all add: p)
    with nth_pct_from [OF j, of v] show ?thesis unfolding r by (simp add: i p)
  qed
  show ?thesis using len nth by blast
qed


theorem calculate_returns_values_witness:
  "2 \<le> length [(0::nat, Fin 100), (1, Fin 110), (2, Fin 99)]
   \<and> quotients_defined (map snd [(0::nat, Fin 100), (1, Fin 110), (2, Fin 99)])
   \<and> length (calculate_returns True [(0::nat, Fin 100), (1, Fin 110), (2, Fin 99)]) = 2
   \<and> calculate_returns True [(0::nat, Fin 100), (1, Fin 110), (2, Fin 99)] ! 0
       = (1, Fin (1 / 10))
   \<and> calculate_returns True [(0::nat, Fin 100), (1, Fin 110), (2, Fin 99)] ! 1
       = (2, Fin (- (1 / 10)))"
proof -
  let ?ps = "[(0::nat, Fin 100), (1, Fin 110), (2, Fin 99)]"
  have h1: "2 \<le> length ?ps" by simp
  have h2: "\<forall>row\<in>set ?ps. \<not> is_nan (snd row)" by simp
  have h3: "quotients_defined (map snd ?ps)" by simp
  note t = calculate_returns_values [OF h1 h2 h3, of True]
  from t have len: "length (calculate_returns True ?ps) = 2" by simp
  have e0: "calculate_returns True ?ps ! 0 = (1, Fin (1 / 10))"
    using t [THEN conjunct2, rule_format, of 1] by (simp add: fsub_def)
  have e1: "calculate_returns True ?ps ! 1 = (2, Fin (- (1 / 10)))"
    using t [THEN conjunct2, rule_format, of 2] by (simp add: fsub_def)
  show ?thesis using h1 h3 len e0 e1 by blast
qed

text \<open>
  C3, counterexample to the unrestricted statement: for the three prices 0, 0, 1 the second quotient is \<open>0/0\<close>, NaN,
  and \<open>dropna\<close> removes its row, so one return is left instead of two.
\<close>

theorem calculate_returns_length_counterexample:
  "\<not> length (calculate_returns True [(0::nat, Fin 0), (1, Fin 0), (2, Fin 1)])
       = length [(0::nat, Fin 0), (1, Fin 0), (2, Fin 1)] - 1
   \<and> \<not> length (calculate_returns False [(0::nat, Fin 0), (1, Fin 0), (2, Fin 1)])
       = length [(0::nat, Fin 0), (1, Fin 0), (2, Fin 1)] - 1"
  by (simp add: calculate_returns_def pct_change_def dropna_def ffill_def fsub_def
      inf_signed_def)

text \<open>
  C4 (amended). For every price series with fewer than 2 observations,
  \<open>calculate_returns\<close> returns the empty series; it raises nothing.
\<close>

theorem calculate_returns_short:
  "length prices < 2 \<Longrightarrow> calculate_returns pad prices = []"
proof (cases prices)
  case Nil
  then show ?thesis
    by (simp add: calculate_returns_def pct_change_def dropna_def ffill_def)
next
  case (Cons row rows)
  assume "length prices < 2"
  with Cons have rows: "rows = []" by simp
  obtain l v where row: "row = (l, v)" by (cases row)
  show ?thesis
    by (simp add: Cons rows row calculate_returns_def pct_change_def dropna_def ffill_def)
qed

theorem calculate_returns_short_witness:
  "length ([] :: (nat \<times> pyfloat) list) < 2
   \<and> calculate_returns True ([] :: (nat \<times> pyfloat) list) = []
   \<and> calculate_returns False [(7::nat, Fin 3)] = []"
  using calculate_returns_short [of "[] :: (nat \<times> pyfloat) list" True]
    calculate_returns_short [of "[(7::nat, Fin 3)]" False]
  by simp

text \<open>
  C4, counterexample to the failure with an error: a single price gives the empty series as the result of the call,
  not an error.
\<close>

theorem calculate_returns_single_counterexample:
  "calculate_returns True [(0::nat, Fin 5)] = []
   \<and> calculate_returns False [(0::nat, Fin 5)] = []"
  by (simp add: calculate_returns_def pct_change_def dropna_def ffill_def)

subsection \<open>Volatility and Sharpe ratio of a flat series\<close>

lemma fdiv_zero_not_finite: "fdiv x (Fin 0) \<in> {NaN, PInf, NInf}"
  by (cases x) (simp_all add: inf_signed_def)

lemma rdiv_zero_not_finite: "rdiv r x (Fin 0) \<in> {NaN, PInf, NInf}"
  using fdiv_zero_not_finite [of x] by (auto simp: rdiv_def)

lemma sharpe_zero_std:
  assumes "r 0 = 0" and "series_std r returns = Fin 0"
  shows "calculate_sharpe_ratio r self returns annualize \<in> {NaN, PInf, NInf}"
proof -
  have "calculate_sharpe_ratio r self returns annualize =
      rdiv r (rsub r (if annualize then rmul r (series_mean r returns) (Fin 252)
                      else series_mean r returns) (risk_free_rate self)) (Fin 0)"
    using assms by (simp add: calculate_sharpe_ratio_def rmul_def)
  then show ?thesis by (simp only: rdiv_zero_not_finite)
qed

lemma rsum_replicate_zero: "r 0 = 0 \<Longrightarrow> rsum r (replicate m (Fin 0)) = Fin 0"
  by (induction m) (simp_all add: rsum_def radd_def)

lemma series_std_flat:
  assumes "r 0 = 0" and "map snd s = replicate m (Fin 0)" and "2 \<le> m"
  shows "series_std r s = Fin 0"
proof -
  have nonan: "\<forall>row\<in>set s. \<not> is_nan (snd row)"
  proof
    fix row assume "row \<in> set s"
    then have "snd row \<in> set (map snd s)" by simp
    with assms(2) show "\<not> is_nan (snd row)" by auto
  qed
  then have d: "dropna s = s" by (simp add: dropna_def)
  have m: "real m \<noteq> 0" "real (m - 1) \<noteq> 0" "\<not> m \<le> 1" using assms(3) by auto
  have quot: "rdiv r (rsum r (replicate m (Fin 0))) (Fin x) = Fin 0" if "x \<noteq> 0" for x
    using that assms(1) by (simp add: rsum_replicate_zero rdiv_def)
  have sq: "rmul r (rsub r (Fin 0) (Fin 0)) (rsub r (Fin 0) (Fin 0)) = Fin 0"
    using assms(1) by (simp add: rmul_def rsub_def fsub_def)
  have root: "rsqrt r (Fin 0) = Fin 0"
    using assms(1) by (simp add: rsqrt_def)
  have "series_std r s =
      rsqrt r (rdiv r (rsum r (map (\<lambda>v. rmul r (rsub r (Fin 0) v) (rsub r (Fin 0) v))
                                (replicate m (Fin 0)))) (Fin (real (m - 1))))"
    using m(3) by (simp add: series_std_def d assms(2) quot [OF m(1)] Let_def)
  also have "map (\<lambda>v. rmul r (rsub r (Fin 0) v) (rsub r (Fin 0) v)) (replicate m (Fin 0))
      = replicate m (Fin 0)"
    by (simp add: sq)
  finally show ?thesis
    by (simp only: quot [OF m(2)] root)
qed

lemma pct_from_flat:
  "c \<noteq> 0 \<Longrightarrow> \<forall>row\<in>set rows. snd row = Fin c \<Longrightarrow>
   map snd (pct_from (Fin c) rows) = replicate (length rows) (Fin 0)"
  by (induction rows) (auto simp: fsub_def)

lemma calculate_returns_flat:
  assumes "c \<noteq> 0" and "\<forall>row\<in>set prices. snd row = Fin c"
  shows "map snd (calculate_returns pad prices) = replicate (length prices - 1) (Fin 0)"
proof (cases prices)
  case Nil
  then show ?thesis
    by (simp add: calculate_returns_def pct_change_def dropna_def ffill_def)
next
  case (Cons row rows)
  obtain l v where row: "row = (l, v)" by (cases row)
  have v: "v = Fin c" using assms(2) by (simp add: Cons row)
  have rows: "\<forall>r\<in>set rows. snd r = Fin c" using assms(2) by (simp add: Cons)
  have nonan: "\<forall>r\<in>set prices. \<not> is_nan (snd r)" using assms(2) by simp
  have q: "quotients_defined (Fin c # map snd rows)"
    using rows assms(1) by (induction rows) auto
  have "calculate_returns pad prices = pct_from v rows"
    using nonan q by (intro calculate_returns_defined [where l = l]) (simp_all add: Cons row v)
  then show ?thesis
    using pct_from_flat [OF assms(1) rows] by (simp add: v Cons)
qed

text \<open>
  C6 (amended). For every return series whose sample standard deviation, as
  \<open>returns.std()\<close> computes it in doubles, is exactly 0.0, \<open>calculate_sharpe_ratio\<close>
  returns an undefined value, NaN or an infinity, and raises nothing; for a constant price
  series of at least 3 observations whose price is a nonzero number,
  \<open>calculate_volatility\<close> of its returns is 0 and the Sharpe ratio is such an undefined
  value. The rounding \<open>r\<close> is any rounding that keeps zero. The returns of constant
  nonzero prices are \<open>c / c - 1\<close>, exactly 0 in doubles as in exact arithmetic.
\<close>

theorem flat_series_metrics:
  assumes "r 0 = 0"
  shows "(series_std r returns = Fin 0 \<longrightarrow>
      calculate_sharpe_ratio r self returns annualize \<in> {NaN, PInf, NInf})
   \<and> (3 \<le> length prices \<and> c \<noteq> 0 \<and> (\<forall>row\<in>set prices. snd row = Fin c) \<longrightarrow>
      calculate_volatility r (calculate_returns pad prices) annualize = Fin 0
      \<and> calculate_sharpe_ratio r self (calculate_returns pad prices) annualize
          \<in> {NaN, PInf, NInf})"
proof -
  have flat: "series_std r (calculate_returns pad prices) = Fin 0"
    if "3 \<le> length prices" "c \<noteq> 0" "\<forall>row\<in>set prices. snd row = Fin c"
  proof -
    have "2 \<le> length prices - 1" using that(1) by simp
    with assms calculate_returns_flat [OF that(2,3), of pad] show ?thesis
      by (rule series_std_flat)
  qed
  have vol: "calculate_volatility r (calculate_returns pad prices) annualize = Fin 0"
    if "3 \<le> length prices" "c \<noteq> 0" "\<forall>row\<in>set prices. snd row = Fin c"
    using flat [OF that] assms by (simp add: calculate_volatility_def Let_def rmul_def)
  show ?thesis
  proof (intro conjI impI)
    assume "series_std r returns = Fin 0"
    with assms show "calculate_sharpe_ratio r self returns annualize \<in> {NaN, PInf, NInf}"
      by (rule sharpe_zero_std)
  next
    assume h: "3 \<le> length prices \<and> c \<noteq> 0 \<and> (\<forall>row\<in>set prices. snd row = Fin c)"
    then show "calculate_volatility r (calculate_returns pad prices) annualize = Fin 0"
      using vol by simp
    from h have "series_std r (calculate_returns pad prices) = Fin 0"
      using flat by simp
    with assms show "calculate_sharpe_ratio r self (calculate_returns pad prices) annualize
        \<in> {NaN, PInf, NInf}"
      by (rule sharpe_zero_std)
  qed
qed

theorem flat_series_metrics_witness:
  "(id :: real \<Rightarrow> real) 0 = 0
   \<and> 3 \<le> length [(0::nat, Fin 5), (1, Fin 5), (2, Fin 5)] \<and> (5::real) \<noteq> 0
   \<and> map snd [(0::nat, Fin 5), (1, Fin 5), (2, Fin 5)] = replicate 3 (Fin 5)
   \<and> series_std id (calculate_returns True [(0::nat, Fin 5), (1, Fin 5), (2, Fin 5)]) = Fin 0
   \<and> calculate_volatility id (calculate_returns True [(0::nat, Fin 5), (1, Fin 5), (2, Fin 5)])
        True = Fin 0
   \<and> calculate_sharpe_ratio id \<lparr>risk_free_rate = Fin 0.04\<rparr>
        (calculate_returns True [(0::nat, Fin 5), (1, Fin 5), (2, Fin 5)]) True
        \<in> {NaN, PInf, NInf}"
proof -
  let ?ps = "[(0::nat, Fin 5), (1, Fin 5), (2, Fin 5)]"
  have z: "(id :: real \<Rightarrow> real) 0 = 0" by simp
  have h: "3 \<le> length ?ps \<and> (5::real) \<noteq> 0 \<and> (\<forall>row\<in>set ?ps. snd row = Fin 5)"
    by simp
  have s: "series_std id (calculate_returns True ?ps) = Fin 0"
    by (simp add: calculate_returns_def pct_change_def dropna_def ffill_def series_std_def
        fsub_def rsum_def radd_def rsub_def rmul_def rdiv_def rsqrt_def)
  note t = flat_series_metrics [where r = id and returns = "calculate_returns True ?ps"
      and self = "\<lparr>risk_free_rate = Fin 0.04\<rparr>" and annualize = True and prices = ?ps
      and c = 5 and pad = True, OF z]
  from t h have "calculate_volatility id (calculate_returns True ?ps) True = Fin 0"
    by blast
  moreover from t s have "calculate_sharpe_ratio id \<lparr>risk_free_rate = Fin 0.04\<rparr>
        (calculate_returns True ?ps) True \<in> {NaN, PInf, NInf}"
    by blast
  moreover have "map snd ?ps = replicate 3 (Fin 5)"
    by (simp add: numeral_3_eq_3)
  ultimately show ?thesis using z h s by blast
qed

text \<open>
  C6, counterexample to the unrestricted statement: two equal prices give a single
  return, whose sample standard deviation (\<open>ddof=1\<close>) is NaN, so the volatility of these
  constant prices is NaN, not 0, whatever the rounding. For three equal prices and the
  risk-free rate 0.04 the value of the Sharpe ratio is minus infinity.
\<close>

theorem flat_pair_volatility_counterexample:
  "calculate_volatility id (calculate_returns True [(0::nat, Fin 5), (1, Fin 5)]) True = NaN
   \<and> calculate_volatility id (calculate_returns False [(0::nat, Fin 5), (1, Fin 5)]) True = NaN
   \<and> calculate_sharpe_ratio id \<lparr>risk_free_rate = Fin 0.04\<rparr>
        (calculate_returns True [(0::nat, Fin 5), (1, Fin 5), (2, Fin 5)]) True = NInf"
  by (simp add: calculate_volatility_def calculate_sharpe_ratio_def calculate_returns_def
      pct_change_def dropna_def ffill_def series_std_def series_mean_def fsub_def
      rsum_def radd_def rsub_def rmul_def rdiv_def rsqrt_def inf_signed_def)

subsection \<open>Valuation of unresolved holdings\<close>

lemma value_step_unresolved:
  "\<not> present (get_current_price f (fst item)) \<Longrightarrow> value_step f item acc = acc"
  by (cases item; cases acc) (auto simp: value_step_def present_def split: option.splits)

lemma fold_value_step_unresolved:
  "\<forall>item\<in>set hs. \<not> present (get_current_price f (fst item)) \<Longrightarrow>
   fold (value_step f) hs acc = acc"
  by (induction hs arbitrary: acc) (simp_all add: value_step_unresolved)

text \<open>
  C2 (amended). For every holdings set in which no holding resolves to a current price
  (the empty set included), \<open>calculate_portfolio_value\<close> returns the valuation with total
  value 0 and no position; it raises nothing, and no division is reached.
\<close>

theorem valuation_of_unresolved_portfolio:
  assumes "\<forall>item\<in>set (holdings self). \<not> present (get_current_price (fetcher self) (fst item))"
  shows "fst (calculate_portfolio_value self) = \<lparr>total_value = Fin 0, positions = []\<rparr>"
  using fold_value_step_unresolved [OF assms, of "(Fin 0, [])"]
  by (simp add: calculate_portfolio_value_def)

theorem valuation_of_unresolved_portfolio_witness:
  "get_current_price (fetcher (add_holding ''AAPL'' (Fin 10) (Some (Fin 150))
        (init \<lparr>get_current_price = Map.empty, get_stock_info = Map.empty,
               fetch_stock_data = (\<lambda>t p. None :: unit option)\<rparr> (Fin 0.04)))) ''AAPL'' = None
   \<and> fst (calculate_portfolio_value (add_holding ''AAPL'' (Fin 10) (Some (Fin 150))
        (init \<lparr>get_current_price = Map.empty, get_stock_info = Map.empty,
               fetch_stock_data = (\<lambda>t p. None :: unit option)\<rparr> (Fin 0.04))))
       = \<lparr>total_value = Fin 0, positions = []\<rparr>"
proof -
  let ?a = "add_holding ''AAPL'' (Fin 10) (Some (Fin 150))
        (init \<lparr>get_current_price = Map.empty, get_stock_info = Map.empty,
               fetch_stock_data = (\<lambda>t p. None :: unit option)\<rparr> (Fin 0.04))"
  have h: "\<forall>item\<in>set (holdings ?a). \<not> present (get_current_price (fetcher ?a) (fst item))"
    by (simp add: add_holding_def init_def present_def)
  have "get_current_price (fetcher ?a) ''AAPL'' = None"
    by (simp add: add_holding_def init_def)
  with valuation_of_unresolved_portfolio [OF h] show ?thesis by blast
qed

text \<open>
  C2, counterexample to the failure with an error: with no holding at all the call returns the zero valuation; there
  is no \<open>EmptyPortfolio\<close> error and no guard in the code.
\<close>

theorem valuation_of_empty_portfolio_counterexample:
  "fst (calculate_portfolio_value
          (init \<lparr>get_current_price = Map.empty, get_stock_info = Map.empty,
                 fetch_stock_data = (\<lambda>t p. None :: unit option)\<rparr> (Fin 0.04)))
     = \<lparr>total_value = Fin 0, positions = []\<rparr>"
  by (simp add: calculate_portfolio_value_def init_def)

subsection \<open>Rebalancing with an unresolved ticker\<close>

text \<open>
  C1, at the failing input. Two holdings, AAPL with the price 160 and MSFT with no price:
  the valuation leaves MSFT out, the loop of \<open>get_rebalancing_recommendations\<close> still
  visits it, and reading its position raises \<open>KeyError\<close>; no recommendation is returned.
\<close>

theorem rebalancing_unresolved_ticker_raises:
  "fst (get_rebalancing_recommendations None
          (add_holding ''MSFT'' (Fin 15) (Some (Fin 300))
            (add_holding ''AAPL'' (Fin 10) (Some (Fin 150))
              (init \<lparr>get_current_price = map_of [(''AAPL'', Fin 160)],
                     get_stock_info = Map.empty,
                     fetch_stock_data = (\<lambda>t p. None :: unit option)\<rparr> (Fin 0.04)))))
     = Inl (KeyError ''MSFT'')"
  by (simp add: get_rebalancing_recommendations_def calculate_portfolio_value_def
      add_holding_def init_def value_step_def make_position_def set_weight_def
      dict_item_def dict_get_def fsub_def Let_def)

subsection \<open>Frame\<close>

lemma snd_calculate_portfolio_value: "snd (calculate_portfolio_value self) = self"
  by (simp add: calculate_portfolio_value_def split: prod.splits)

lemma snd_calculate_portfolio_value_fl: "snd (calculate_portfolio_value_fl r self) = self"
  by (simp add: calculate_portfolio_value_fl_def split: prod.splits)

lemma snd_analyze_diversification: "snd (analyze_diversification r self) = self"
  by (simp add: analyze_diversification_def calculate_portfolio_value_fl_def Let_def
      split: prod.splits sum.splits)

lemma snd_calculate_risk_metrics: "snd (calculate_risk_metrics pm self) = self"
  by (simp add: calculate_risk_metrics_def calculate_portfolio_value_def Let_def
      split: prod.splits sum.splits)

lemma snd_get_rebalancing_recommendations:
  "snd (get_rebalancing_recommendations tw self) = self"
  by (simp add: get_rebalancing_recommendations_def calculate_portfolio_value_def Let_def
      split: prod.splits)

lemma snd_generate_portfolio_report: "snd (generate_portfolio_report r pm self) = self"
proof -
  have v: "s = self" if "calculate_portfolio_value_fl r self = (x, s)" for x s
    using snd_calculate_portfolio_value_fl [of r self] that by simp
  have d: "s = self" if "analyze_diversification r self = (x, s)" for x s
    using snd_analyze_diversification [of r self] that by simp
  have m: "s = self" if "calculate_risk_metrics pm self = (x, s)" for x s
    using snd_calculate_risk_metrics [of pm self] that by simp
  show ?thesis
    by (auto simp: generate_portfolio_report_def Let_def split: prod.splits sum.splits
        dest!: v d m)
qed

lemma map_of_dict_set: "map_of (dict_set d k v) = (map_of d)(k \<mapsto> v)"
  by (induction d) (auto simp: fun_upd_twist)

lemma holdings_load_portfolio_data:
  "holdings (snd (load_portfolio_data period self)) = holdings self"
  by (simp add: load_portfolio_data_def Let_def)

text \<open>
  C10. Every analysis operation returns the analyzer object as it received it, whether it
  ends with a result or with an error, so the holdings keep their tickers, shares and
  purchase prices; loading price data changes the price data only; \<open>add_holding\<close> is the
  operation that sets the entry of its ticker in the holdings. This holds for the
  valuation in exact arithmetic and in doubles, whatever the rounding \<open>r\<close>.
\<close>

theorem analysis_leaves_holdings:
  "snd (calculate_portfolio_value self) = self
   \<and> snd (calculate_portfolio_value_fl r self) = self
   \<and> snd (analyze_diversification r self) = self
   \<and> snd (get_rebalancing_recommendations tw self) = self
   \<and> snd (calculate_risk_metrics pm self) = self
   \<and> snd (generate_portfolio_report r pm self) = self
   \<and> holdings (snd (load_portfolio_data period self)) = holdings self
   \<and> map_of (holdings (add_holding ticker n price self))
       = (map_of (holdings self))(ticker \<mapsto> \<lparr>shares = n, purchase_price = price\<rparr>)"
  by (simp add: snd_calculate_portfolio_value snd_calculate_portfolio_value_fl
      snd_analyze_diversification
      snd_get_rebalancing_recommendations snd_calculate_risk_metrics
      snd_generate_portfolio_report holdings_load_portfolio_data
      add_holding_def map_of_dict_set)

subsection \<open>Weights of the resolved positions\<close>

lemma dict_set_fresh: "k \<notin> fst ` set d \<Longrightarrow> dict_set d k v = d @ [(k, v)]"
  by (induction d) auto

lemma value_step_resolved:
  "get_current_price f t = Some price \<Longrightarrow> truthy price \<Longrightarrow>
   value_step f (t, h) (tot, ps) =
     (fadd tot (position_value (make_position price h)), dict_set ps t (make_position price h))"
  by (simp add: value_step_def)

text \<open>
  With distinct tickers the first loop appends one position per holding whose price passes
  the test, in the order of the holdings, and adds their values to the total.
\<close>

lemma fold_value_step:
  assumes "distinct (map fst hs)" and "fst ` set ps0 \<inter> fst ` set hs = {}"
  shows "fold (value_step f) hs (t0, ps0) =
     (foldl fadd t0
        (map (\<lambda>(t, h). position_value (make_position (the (get_current_price f t)) h))
           (filter (\<lambda>(t, h). present (get_current_price f t)) hs)),
      ps0 @ map (\<lambda>(t, h). (t, make_position (the (get_current_price f t)) h))
              (filter (\<lambda>(t, h). present (get_current_price f t)) hs))"
  using assms
proof (induction hs arbitrary: t0 ps0)
  case Nil
  then show ?case by simp
next
  case (Cons item hs)
  obtain t h where item: "item = (t, h)" by (cases item)
  from Cons.prems have d: "distinct (map fst hs)" and t: "t \<notin> fst ` set hs"
    and fresh: "t \<notin> fst ` set ps0" and disj: "fst ` set ps0 \<inter> fst ` set hs = {}"
    by (auto simp: item)
  show ?case
  proof (cases "present (get_current_price f t)")
    case False
    then have "value_step f item (t0, ps0) = (t0, ps0)"
      by (simp add: value_step_unresolved item)
    with Cons.IH [OF d disj] False show ?thesis by (simp add: item)
  next
    case True
    then obtain price where p: "get_current_price f t = Some price" "truthy price"
      by (auto simp: present_def split: option.splits)
    have step: "value_step f (t, h) (t0, ps0) =
        (fadd t0 (position_value (make_position price h)), ps0 @ [(t, make_position price h)])"
      by (simp add: value_step_resolved [OF p] dict_set_fresh [OF fresh])
    have disj': "fst ` set (ps0 @ [(t, make_position price h)]) \<inter> fst ` set hs = {}"
      using disj t by auto
    from Cons.IH [OF d disj'] True p show ?thesis
      by (simp add: item step)
  qed
qed

lemma fadd_Fin_cases: "fadd a x = Fin y \<Longrightarrow> \<exists>p q. a = Fin p \<and> x = Fin q"
  by (cases a; cases x) simp_all

lemma foldl_fadd_Fin: "foldl fadd (Fin a) (map Fin rs) = Fin (a + sum_list rs)"
  by (induction rs arbitrary: a) (simp_all add: add.assoc)

lemma foldl_fadd_finite:
  "foldl fadd a vs = Fin t \<Longrightarrow> \<exists>r rs. a = Fin r \<and> vs = map Fin rs"
proof (induction vs arbitrary: a)
  case Nil
  then show ?case by simp
next
  case (Cons v vs)
  then obtain r rs where "fadd a v = Fin r" "vs = map Fin rs" by fastforce
  moreover then obtain p q where "a = Fin p" "v = Fin q"
    using fadd_Fin_cases by blast
  ultimately have "a = Fin p \<and> v # vs = map Fin (q # rs)" by simp
  then show ?case by (intro exI [of _ p] exI [of _ "q # rs"])
qed

lemma weights_sum:
  assumes "fsum vs = Fin t" and "t \<noteq> 0"
  shows "fsum (map (\<lambda>v. fdiv v (Fin t)) vs) = Fin 1"
proof -
  from assms(1) obtain rs where rs: "vs = map Fin rs"
    unfolding fsum_def using foldl_fadd_finite by blast
  have t: "t = sum_list rs"
    using assms(1) by (simp add: fsum_def rs foldl_fadd_Fin)
  have "map (\<lambda>v. fdiv v (Fin t)) vs = map Fin (map (\<lambda>r. r / t) rs)"
    using assms(2) by (simp add: rs)
  then have "fsum (map (\<lambda>v. fdiv v (Fin t)) vs)
      = foldl fadd (Fin 0) (map Fin (map (\<lambda>r. r / t) rs))"
    by (simp only: fsum_def)
  also have "\<dots> = Fin (0 + sum_list (map (\<lambda>r. r / t) rs))"
    by (rule foldl_fadd_Fin)
  also have "sum_list (map (\<lambda>r. r / t) rs) = sum_list rs / t"
    by (induction rs) (simp_all add: add_divide_distrib)
  finally show ?thesis using t assms(2) by simp
qed

lemma fold_value_step_filter:
  "fold (value_step f) (filter (\<lambda>item. present (get_current_price f (fst item))) hs) acc
     = fold (value_step f) hs acc"
  by (induction hs arbitrary: acc) (simp_all add: value_step_unresolved)


lemma valuation_resolved:
  assumes "distinct (map fst (holdings self))"
  shows "fst (calculate_portfolio_value self) =
    \<lparr>total_value =
       fsum (map (\<lambda>(t, h). position_value
                    (make_position (the (get_current_price (fetcher self) t)) h))
               (filter (\<lambda>(t, h). present (get_current_price (fetcher self) t))
                  (holdings self))),
     positions =
       map (\<lambda>(t, h).
              (t, set_weight
                    (fsum (map (\<lambda>(t, h). position_value
                                 (make_position (the (get_current_price (fetcher self) t)) h))
                            (filter (\<lambda>(t, h). present (get_current_price (fetcher self) t))
                               (holdings self))))
                    (make_position (the (get_current_price (fetcher self) t)) h)))
           (filter (\<lambda>(t, h). present (get_current_price (fetcher self) t))
              (holdings self))\<rparr>"
  using fold_value_step [OF assms, of "[]" "fetcher self" "Fin 0"]
  by (simp add: calculate_portfolio_value_def fsum_def case_prod_unfold comp_def)

text \<open>
  C5 (amended). For every holdings set whose resolved positions have a total value that is
  a nonzero number (neither zero, an infinity nor NaN), the weights of the positions made
  by \<open>calculate_portfolio_value\<close> sum to 1 in exact arithmetic; the positions are those
  of the holdings whose price passes the test \<open>if current_price:\<close>, in the order of the
  holdings; and the whole valuation, every weight with the total under it, is the one of
  the portfolio without the other holdings.
\<close>

theorem weights_sum_to_one:
  assumes "distinct (map fst (holdings self))"
    and "total_value (fst (calculate_portfolio_value self)) = Fin t"
    and "t \<noteq> 0"
  shows "fsum (map (weight \<circ> snd) (positions (fst (calculate_portfolio_value self)))) = Fin 1
       \<and> map fst (positions (fst (calculate_portfolio_value self)))
           = filter (\<lambda>ticker. present (get_current_price (fetcher self) ticker))
               (map fst (holdings self))
       \<and> fst (calculate_portfolio_value
                (self\<lparr>holdings :=
                        filter (\<lambda>item. present (get_current_price (fetcher self) (fst item)))
                          (holdings self)\<rparr>))
           = fst (calculate_portfolio_value self)"
proof -
  let ?f = "fetcher self"
  let ?rs = "filter (\<lambda>(t, h). present (get_current_price ?f t)) (holdings self)"
  let ?vs = "map (\<lambda>(t, h). position_value (make_position (the (get_current_price ?f t)) h)) ?rs"
  note v = valuation_resolved [OF assms(1)]
  have tot: "fsum ?vs = Fin t" using assms(2) by (simp add: v)
  have "map (weight \<circ> snd) (positions (fst (calculate_portfolio_value self)))
      = map (\<lambda>x. fdiv x (Fin t)) ?vs"
    by (simp add: v tot [unfolded case_prod_unfold] set_weight_def case_prod_unfold comp_def)
  then have one: "fsum (map (weight \<circ> snd) (positions (fst (calculate_portfolio_value self))))
      = Fin 1"
    using weights_sum [OF tot assms(3)] by simp
  have keys: "map fst (positions (fst (calculate_portfolio_value self)))
      = filter (\<lambda>ticker. present (get_current_price ?f ticker)) (map fst (holdings self))"
    by (simp add: v case_prod_unfold comp_def filter_map)
  have rest: "fst (calculate_portfolio_value
        (self\<lparr>holdings := filter (\<lambda>item. present (get_current_price ?f (fst item)))
                              (holdings self)\<rparr>))
      = fst (calculate_portfolio_value self)"
    by (simp add: calculate_portfolio_value_def fold_value_step_filter split: prod.splits)
  show ?thesis using one keys rest by blast
qed


theorem weights_sum_to_one_witness:
  "distinct (map fst (holdings
      (add_holding ''MSFT'' (Fin 15) (Some (Fin 300))
        (add_holding ''TSLA'' (Fin 12) (Some (Fin 200))
          (add_holding ''AAPL'' (Fin 10) (Some (Fin 150))
            (init (quotes [(''AAPL'', Fin 160), (''MSFT'', Fin 290)] []) (Fin 0.04)))))))
   \<and> total_value (fst (calculate_portfolio_value
      (add_holding ''MSFT'' (Fin 15) (Some (Fin 300))
        (add_holding ''TSLA'' (Fin 12) (Some (Fin 200))
          (add_holding ''AAPL'' (Fin 10) (Some (Fin 150))
            (init (quotes [(''AAPL'', Fin 160), (''MSFT'', Fin 290)] []) (Fin 0.04))))))) = Fin 5950
   \<and> fsum (map (weight \<circ> snd) (positions (fst (calculate_portfolio_value
      (add_holding ''MSFT'' (Fin 15) (Some (Fin 300))
        (add_holding ''TSLA'' (Fin 12) (Some (Fin 200))
          (add_holding ''AAPL'' (Fin 10) (Some (Fin 150))
            (init (quotes [(''AAPL'', Fin 160), (''MSFT'', Fin 290)] []) (Fin 0.04))))))))) = Fin 1
   \<and> map fst (positions (fst (calculate_portfolio_value
      (add_holding ''MSFT'' (Fin 15) (Some (Fin 300))
        (add_holding ''TSLA'' (Fin 12) (Some (Fin 200))
          (add_holding ''AAPL'' (Fin 10) (Some (Fin 150))
            (init (quotes [(''AAPL'', Fin 160), (''MSFT'', Fin 290)] []) (Fin 0.04))))))))
       = [''AAPL'', ''MSFT'']"
proof -
  let ?a = "add_holding ''MSFT'' (Fin 15) (Some (Fin 300))
        (add_holding ''TSLA'' (Fin 12) (Some (Fin 200))
          (add_holding ''AAPL'' (Fin 10) (Some (Fin 150))
            (init (quotes [(''AAPL'', Fin 160), (''MSFT'', Fin 290)] []) (Fin 0.04))))"
  have hs: "holdings ?a = [(''AAPL'', \<lparr>shares = Fin 10, purchase_price = Some (Fin 150)\<rparr>),
                           (''TSLA'', \<lparr>shares = Fin 12, purchase_price = Some (Fin 200)\<rparr>),
                           (''MSFT'', \<lparr>shares = Fin 15, purchase_price = Some (Fin 300)\<rparr>)]"
    by (simp add: add_holding_def init_def)
  have f: "fetcher ?a = quotes [(''AAPL'', Fin 160), (''MSFT'', Fin 290)] []"
    by (simp add: add_holding_def init_def)
  have h1: "distinct (map fst (holdings ?a))" unfolding hs by simp
  have h2: "total_value (fst (calculate_portfolio_value ?a)) = Fin 5950"
    unfolding calculate_portfolio_value_def hs f
    by (simp add: value_step_def make_position_def quotes_def)
  have h3: "(5950::real) \<noteq> 0" by simp
  note t = weights_sum_to_one [OF h1 h2 h3]
  have keys: "map fst (positions (fst (calculate_portfolio_value ?a))) = [''AAPL'', ''MSFT'']"
    using t [THEN conjunct2, THEN conjunct1] unfolding hs f
    by (simp add: present_def quotes_def)
  show ?thesis by (intro conjI h1 h2 t [THEN conjunct1] keys)
qed

text \<open>
  C5, counterexample to the unrestricted statement. A price that resolves to NaN passes the test \<open>if current_price:\<close>,
  and the one weight is NaN; a price that resolves to 0.0 fails the test, no position is
  made, and the weights sum to 0.
\<close>

theorem weights_sum_counterexample:
  "get_current_price (fetcher
       (add_holding ''AAPL'' (Fin 10) (Some (Fin 150))
          (init (quotes [(''AAPL'', NaN)] []) (Fin 0.04)))) ''AAPL'' = Some NaN
   \<and> fsum (map (weight \<circ> snd) (positions (fst (calculate_portfolio_value
       (add_holding ''AAPL'' (Fin 10) (Some (Fin 150))
          (init (quotes [(''AAPL'', NaN)] []) (Fin 0.04))))))) = NaN
   \<and> get_current_price (fetcher
       (add_holding ''AAPL'' (Fin 10) (Some (Fin 150))
          (init (quotes [(''AAPL'', Fin 0)] []) (Fin 0.04)))) ''AAPL'' = Some (Fin 0)
   \<and> fsum (map (weight \<circ> snd) (positions (fst (calculate_portfolio_value
       (add_holding ''AAPL'' (Fin 10) (Some (Fin 150))
          (init (quotes [(''AAPL'', Fin 0)] []) (Fin 0.04))))))) = Fin 0"
  by (simp add: calculate_portfolio_value_def add_holding_def init_def quotes_def
      value_step_def make_position_def set_weight_def fsum_def)

subsection \<open>Zero prices\<close>

lemma map_fst_dict_set: "set (map fst (dict_set d k v)) = insert k (set (map fst d))"
proof (induction d)
  case Nil
  then show ?case by simp
next
  case (Cons row d)
  obtain k' v' where row: "row = (k', v')" by (cases row)
  show ?case
  proof (cases "k' = k")
    case True
    then show ?thesis by (simp add: row)
  next
    case False
    then show ?thesis using Cons.IH by (simp add: row insert_commute)
  qed
qed

lemma keys_dict_set: "fst ` set (dict_set d k v) = insert k (fst ` set d)"
  using map_fst_dict_set [of d k v] by simp

lemma distinct_dict_set: "distinct (map fst d) \<Longrightarrow> distinct (map fst (dict_set d k v))"
  by (induction d) (auto simp: keys_dict_set)

lemma keys_value_step:
  "fst ` set (snd (value_step f item acc))
     \<subseteq> fst ` set (snd acc) \<union> {t. present (get_current_price f t)}"
  by (cases item; cases acc)
     (auto simp: value_step_def keys_dict_set present_def split: option.splits)

lemma keys_fold_value_step:
  "fst ` set (snd (fold (value_step f) hs acc))
     \<subseteq> fst ` set (snd acc) \<union> {t. present (get_current_price f t)}"
proof (induction hs arbitrary: acc)
  case Nil
  then show ?case by simp
next
  case (Cons item hs)
  have "fst ` set (snd (fold (value_step f) hs (value_step f item acc)))
      \<subseteq> fst ` set (snd (value_step f item acc)) \<union> {t. present (get_current_price f t)}"
    by (rule Cons.IH)
  with keys_value_step [of f item acc] show ?case by (simp only: fold_simps) blast
qed

lemma keys_positions:
  "fst ` set (positions (fst (calculate_portfolio_value self)))
     \<subseteq> {t. present (get_current_price (fetcher self) t)}"
proof -
  obtain tot ps where f: "fold (value_step (fetcher self)) (holdings self) (Fin 0, []) = (tot, ps)"
    by (cases "fold (value_step (fetcher self)) (holdings self) (Fin 0, [])")
  have "fst ` set ps \<subseteq> {t. present (get_current_price (fetcher self) t)}"
    using keys_fold_value_step [of "fetcher self" "holdings self" "(Fin 0, [])"] by (simp add: f)
  moreover have "fst ` set (positions (fst (calculate_portfolio_value self))) = fst ` set ps"
    by (force simp: calculate_portfolio_value_def f)
  ultimately show ?thesis by simp
qed

lemma value_step_zero_price:
  "value_step (f\<lparr>get_current_price := (get_current_price f)(ticker \<mapsto> Fin 0)\<rparr>) item acc
     = value_step (f\<lparr>get_current_price := (get_current_price f)(ticker := None)\<rparr>) item acc"
  by (cases item; cases acc) (simp add: value_step_def)

lemma valuation_zero_price:
  "fst (calculate_portfolio_value
          (self\<lparr>fetcher := (fetcher self)\<lparr>get_current_price :=
                     (get_current_price (fetcher self))(ticker \<mapsto> Fin 0)\<rparr>\<rparr>))
   = fst (calculate_portfolio_value
          (self\<lparr>fetcher := (fetcher self)\<lparr>get_current_price :=
                     (get_current_price (fetcher self))(ticker := None)\<rparr>\<rparr>))"
proof -
  have "value_step ((fetcher self)\<lparr>get_current_price :=
                     (get_current_price (fetcher self))(ticker \<mapsto> Fin 0)\<rparr>)
      = value_step ((fetcher self)\<lparr>get_current_price :=
                     (get_current_price (fetcher self))(ticker := None)\<rparr>)"
    by (intro ext) (rule value_step_zero_price)
  then show ?thesis
    by (simp add: calculate_portfolio_value_def split: prod.splits)
qed

lemma zero_price_no_position:
  "ticker \<notin> fst ` set (positions (fst (calculate_portfolio_value
          (self\<lparr>fetcher := (fetcher self)\<lparr>get_current_price :=
                     (get_current_price (fetcher self))(ticker \<mapsto> Fin 0)\<rparr>\<rparr>))))"
  using keys_positions [of "self\<lparr>fetcher := (fetcher self)\<lparr>get_current_price :=
                     (get_current_price (fetcher self))(ticker \<mapsto> Fin 0)\<rparr>\<rparr>"]
  by (auto simp: present_def)


subsection \<open>Zero purchase prices\<close>

text \<open>
  Two holdings that the valuation cannot tell apart but for the purchase price it echoes:
  the same shares, and the same purchase price unless both fail the test
  \<open>if holding['purchase_price']:\<close>.
\<close>

lemma make_position_unpaid:
  assumes "shares h = shares h'"
    and "purchase_price h = purchase_price h'
         \<or> (\<not> present (purchase_price h) \<and> \<not> present (purchase_price h'))"
  shows "(make_position price h)\<lparr>pos_purchase_price := None\<rparr>
           = (make_position price h')\<lparr>pos_purchase_price := None\<rparr>"
    and "position_value (make_position price h) = position_value (make_position price h')"
  using assms
  by (auto simp: make_position_def present_def split: option.splits)

lemma apsnd_dict_set:
  "map (apsnd g) (dict_set ps k v) = dict_set (map (apsnd g) ps) k (g v)"
  by (induction ps) auto

lemma value_step_unpaid:
  assumes "shares h = shares h'"
    and "purchase_price h = purchase_price h'
         \<or> (\<not> present (purchase_price h) \<and> \<not> present (purchase_price h'))"
    and "map (apsnd (\<lambda>p. p\<lparr>pos_purchase_price := None\<rparr>)) ps
         = map (apsnd (\<lambda>p. p\<lparr>pos_purchase_price := None\<rparr>)) ps'"
  shows "fst (value_step f (t, h) (tot, ps)) = fst (value_step f (t, h') (tot, ps'))
       \<and> map (apsnd (\<lambda>p. p\<lparr>pos_purchase_price := None\<rparr>)) (snd (value_step f (t, h) (tot, ps)))
         = map (apsnd (\<lambda>p. p\<lparr>pos_purchase_price := None\<rparr>))
             (snd (value_step f (t, h') (tot, ps')))"
  using assms(3) make_position_unpaid [OF assms(1,2)]
  by (simp add: value_step_def apsnd_dict_set split: option.splits)

lemma fold_value_step_unpaid:
  assumes "list_all2 (\<lambda>a b. fst a = fst b \<and> shares (snd a) = shares (snd b)
              \<and> (purchase_price (snd a) = purchase_price (snd b)
                 \<or> (\<not> present (purchase_price (snd a)) \<and> \<not> present (purchase_price (snd b)))))
            hs hs'"
    and "map (apsnd (\<lambda>p. p\<lparr>pos_purchase_price := None\<rparr>)) ps
         = map (apsnd (\<lambda>p. p\<lparr>pos_purchase_price := None\<rparr>)) ps'"
  shows "fst (fold (value_step f) hs (tot, ps)) = fst (fold (value_step f) hs' (tot, ps'))
       \<and> map (apsnd (\<lambda>p. p\<lparr>pos_purchase_price := None\<rparr>))
             (snd (fold (value_step f) hs (tot, ps)))
         = map (apsnd (\<lambda>p. p\<lparr>pos_purchase_price := None\<rparr>))
             (snd (fold (value_step f) hs' (tot, ps')))"
  using assms
proof (induction hs hs' arbitrary: tot ps ps' rule: list_all2_induct)
  case Nil
  then show ?case by simp
next
  case (Cons a hs b hs')
  obtain t h where a: "a = (t, h)" by (cases a)
  obtain t' h' where b: "b = (t', h')" by (cases b)
  from Cons.hyps(1) have t: "t' = t" and sh: "shares h = shares h'"
    and pp: "purchase_price h = purchase_price h'
         \<or> (\<not> present (purchase_price h) \<and> \<not> present (purchase_price h'))"
    by (simp_all add: a b)
  obtain tot1 ps1 where s1: "value_step f (t, h) (tot, ps) = (tot1, ps1)"
    by (cases "value_step f (t, h) (tot, ps)")
  obtain tot2 ps2 where s2: "value_step f (t, h') (tot, ps') = (tot2, ps2)"
    by (cases "value_step f (t, h') (tot, ps')")
  from value_step_unpaid [OF sh pp Cons.prems, of f t tot]
  have e: "tot1 = tot2"
    "map (apsnd (\<lambda>p. p\<lparr>pos_purchase_price := None\<rparr>)) ps1
       = map (apsnd (\<lambda>p. p\<lparr>pos_purchase_price := None\<rparr>)) ps2"
    by (simp_all add: s1 s2)
  from Cons.IH [OF e(2), of tot1] show ?case
    by (simp add: a b t s1 s2 e(1))
qed

lemma list_all2_dict_set:
  assumes "\<And>x. R x x" and "R (k, v) (k, v')"
  shows "list_all2 R (dict_set d k v) (dict_set d k v')"
proof (induction d)
  case Nil
  then show ?case by (simp add: assms(2))
next
  case (Cons row d)
  have same: "list_all2 R d d" by (rule list_all2_refl) (rule assms(1))
  obtain k' w where row: "row = (k', w)" by (cases row)
  show ?case using Cons.IH same assms by (simp add: row)
qed

lemma set_weight_unpaid:
  "(set_weight tot p)\<lparr>pos_purchase_price := None\<rparr>
     = set_weight tot (p\<lparr>pos_purchase_price := None\<rparr>)"
  by (simp add: set_weight_def)

lemma valuation_unpaid:
  "total_value (fst (calculate_portfolio_value (add_holding ticker n (Some (Fin 0)) self)))
     = total_value (fst (calculate_portfolio_value (add_holding ticker n None self)))
   \<and> map (apsnd (\<lambda>p. p\<lparr>pos_purchase_price := None\<rparr>))
         (positions (fst (calculate_portfolio_value (add_holding ticker n (Some (Fin 0)) self))))
     = map (apsnd (\<lambda>p. p\<lparr>pos_purchase_price := None\<rparr>))
         (positions (fst (calculate_portfolio_value (add_holding ticker n None self))))"
proof -
  let ?z = "\<lparr>shares = n, purchase_price = Some (Fin 0)\<rparr>"
  let ?a = "\<lparr>shares = n, purchase_price = None\<rparr>"
  let ?f = "fetcher self"
  have rel: "list_all2 (\<lambda>a b. fst a = fst b \<and> shares (snd a) = shares (snd b)
              \<and> (purchase_price (snd a) = purchase_price (snd b)
                 \<or> (\<not> present (purchase_price (snd a)) \<and> \<not> present (purchase_price (snd b)))))
            (dict_set (holdings self) ticker ?z) (dict_set (holdings self) ticker ?a)"
    by (rule list_all2_dict_set) (simp_all add: present_def)
  obtain tot1 ps1 where s1:
    "fold (value_step ?f) (dict_set (holdings self) ticker ?z) (Fin 0, []) = (tot1, ps1)"
    by (cases "fold (value_step ?f) (dict_set (holdings self) ticker ?z) (Fin 0, [])")
  obtain tot2 ps2 where s2:
    "fold (value_step ?f) (dict_set (holdings self) ticker ?a) (Fin 0, []) = (tot2, ps2)"
    by (cases "fold (value_step ?f) (dict_set (holdings self) ticker ?a) (Fin 0, [])")
  from fold_value_step_unpaid [OF rel, of "[]" "[]" ?f "Fin 0"]
  have e: "tot1 = tot2"
    "map (apsnd (\<lambda>p. p\<lparr>pos_purchase_price := None\<rparr>)) ps1
       = map (apsnd (\<lambda>p. p\<lparr>pos_purchase_price := None\<rparr>)) ps2"
    by (simp_all add: s1 s2)
  have w: "map (apsnd (\<lambda>p. p\<lparr>pos_purchase_price := None\<rparr>))
             (map (\<lambda>(t, p). (t, set_weight tot p)) ps)
         = map (\<lambda>(t, p). (t, set_weight tot p))
             (map (apsnd (\<lambda>p. p\<lparr>pos_purchase_price := None\<rparr>)) ps)" for tot ps
    by (simp add: set_weight_unpaid case_prod_unfold)
  have v1: "fst (calculate_portfolio_value (add_holding ticker n (Some (Fin 0)) self))
      = \<lparr>total_value = tot1, positions = map (\<lambda>(t, p). (t, set_weight tot1 p)) ps1\<rparr>"
    by (simp add: calculate_portfolio_value_def add_holding_def s1)
  have v2: "fst (calculate_portfolio_value (add_holding ticker n None self))
      = \<lparr>total_value = tot2, positions = map (\<lambda>(t, p). (t, set_weight tot2 p)) ps2\<rparr>"
    by (simp add: calculate_portfolio_value_def add_holding_def s2)
  show ?thesis
    unfolding v1 v2 by (simp only: valuation.simps w e)
qed


lemma position_of_unpaid_holding:
  assumes "distinct (map fst (holdings self))"
    and "map_of (positions (fst (calculate_portfolio_value
            (add_holding ticker n (Some (Fin 0)) self)))) ticker = Some p"
  shows "gain_loss p = None \<and> gain_loss_pct p = None \<and> pos_purchase_price p = Some (Fin 0)"
proof -
  let ?s = "add_holding ticker n (Some (Fin 0)) self"
  let ?z = "\<lparr>shares = n, purchase_price = Some (Fin 0)\<rparr>"
  have hs: "holdings ?s = dict_set (holdings self) ticker ?z"
    by (simp add: add_holding_def)
  have d: "distinct (map fst (holdings ?s))"
    unfolding hs by (rule distinct_dict_set [OF assms(1)])
  have z: "map_of (holdings ?s) ticker = Some ?z"
    unfolding hs by (simp add: map_of_dict_set)
  from assms(2) have "(ticker, p) \<in> set (positions (fst (calculate_portfolio_value ?s)))"
    by (rule map_of_SomeD)
  then obtain h tot price where h: "(ticker, h) \<in> set (holdings ?s)"
    and p: "p = set_weight tot (make_position price h)"
    unfolding valuation_resolved [OF d] by auto
  from h d have "map_of (holdings ?s) ticker = Some h" by simp
  with z have "h = ?z" by simp
  then show ?thesis by (simp add: p set_weight_def make_position_def)
qed

text \<open>
  C9. In \<open>calculate_portfolio_value\<close> a current price that resolves to 0.0 gives the
  valuation that an unresolved price gives, with no position for the ticker and nothing
  added to the total; and a holding with the purchase price 0.0 is valued as the holding
  without a purchase price is, the echoed purchase price apart: its position has neither
  \<open>gain_loss\<close> nor \<open>gain_loss_pct\<close>.
\<close>

theorem zero_treated_as_absent:
  "fst (calculate_portfolio_value
          (self\<lparr>fetcher := (fetcher self)\<lparr>get_current_price :=
                     (get_current_price (fetcher self))(ticker \<mapsto> Fin 0)\<rparr>\<rparr>))
     = fst (calculate_portfolio_value
          (self\<lparr>fetcher := (fetcher self)\<lparr>get_current_price :=
                     (get_current_price (fetcher self))(ticker := None)\<rparr>\<rparr>))
   \<and> ticker \<notin> fst ` set (positions (fst (calculate_portfolio_value
          (self\<lparr>fetcher := (fetcher self)\<lparr>get_current_price :=
                     (get_current_price (fetcher self))(ticker \<mapsto> Fin 0)\<rparr>\<rparr>))))
   \<and> total_value (fst (calculate_portfolio_value (add_holding ticker n (Some (Fin 0)) self)))
       = total_value (fst (calculate_portfolio_value (add_holding ticker n None self)))
   \<and> map (apsnd (\<lambda>p. p\<lparr>pos_purchase_price := None\<rparr>))
         (positions (fst (calculate_portfolio_value (add_holding ticker n (Some (Fin 0)) self))))
       = map (apsnd (\<lambda>p. p\<lparr>pos_purchase_price := None\<rparr>))
           (positions (fst (calculate_portfolio_value (add_holding ticker n None self))))
   \<and> (distinct (map fst (holdings self))
        \<and> map_of (positions (fst (calculate_portfolio_value
              (add_holding ticker n (Some (Fin 0)) self)))) ticker = Some p
        \<longrightarrow> gain_loss p = None \<and> gain_loss_pct p = None)"
  using valuation_zero_price [of self ticker] zero_price_no_position [of ticker self]
    valuation_unpaid [of ticker n self] position_of_unpaid_holding [of self ticker n p]
  by blast


theorem zero_treated_as_absent_witness:
  "distinct (map fst (holdings
      (add_holding ''MSFT'' (Fin 15) (Some (Fin 300))
         (init (quotes [(''AAPL'', Fin 160), (''MSFT'', Fin 290)] []) (Fin 0.04)))))
   \<and> map_of (positions (fst (calculate_portfolio_value
        (add_holding ''AAPL'' (Fin 10) (Some (Fin 0))
          (add_holding ''MSFT'' (Fin 15) (Some (Fin 300))
            (init (quotes [(''AAPL'', Fin 160), (''MSFT'', Fin 290)] []) (Fin 0.04))))))) ''AAPL''
       = Some \<lparr>pos_shares = Fin 10, current_price = Fin 160, position_value = Fin 1600,
                pos_purchase_price = Some (Fin 0), gain_loss = None, gain_loss_pct = None,
                weight = Fin (1600 / 5950)\<rparr>
   \<and> gain_loss \<lparr>pos_shares = Fin 10, current_price = Fin 160, position_value = Fin 1600,
                pos_purchase_price = Some (Fin 0), gain_loss = None, gain_loss_pct = None,
                weight = Fin (1600 / 5950)\<rparr> = None
   \<and> gain_loss_pct \<lparr>pos_shares = Fin 10, current_price = Fin 160, position_value = Fin 1600,
                pos_purchase_price = Some (Fin 0), gain_loss = None, gain_loss_pct = None,
                weight = Fin (1600 / 5950)\<rparr> = None"
proof -
  let ?s = "add_holding ''MSFT'' (Fin 15) (Some (Fin 300))
         (init (quotes [(''AAPL'', Fin 160), (''MSFT'', Fin 290)] []) (Fin 0.04))"
  let ?p = "\<lparr>pos_shares = Fin 10, current_price = Fin 160, position_value = Fin 1600,
                pos_purchase_price = Some (Fin 0), gain_loss = None, gain_loss_pct = None,
                weight = Fin (1600 / 5950)\<rparr>"
  have h1: "distinct (map fst (holdings ?s))"
    by (simp add: add_holding_def init_def)
  have h2: "map_of (positions (fst (calculate_portfolio_value
        (add_holding ''AAPL'' (Fin 10) (Some (Fin 0)) ?s)))) ''AAPL'' = Some ?p"
    by (simp add: calculate_portfolio_value_def add_holding_def init_def quotes_def
        value_step_def make_position_def set_weight_def)
  from zero_treated_as_absent [of ?s "''AAPL''" "Fin 10" ?p] h1 h2
  have "gain_loss ?p = None \<and> gain_loss_pct ?p = None" by blast
  with h1 h2 show ?thesis by blast
qed

subsection \<open>When the loops over the holdings raise\<close>




text \<open>
  The rebalancing loop raises \<open>KeyError\<close> as soon as one holding has no position, that
  is, no price that passes the test; it returns a map with the tickers of the holdings
  when every holding has one.
\<close>

lemma recommend_raises:
  "t \<in> set tickers \<Longrightarrow> map_of (positions pv) t = None \<Longrightarrow>
   \<exists>t'. recommend pv cw tw tickers recs = Inl (KeyError t')"
proof (induction tickers arbitrary: recs)
  case Nil
  then show ?case by simp
next
  case (Cons k tickers)
  show ?case
  proof (cases "map_of (positions pv) k")
    case None
    then show ?thesis by (simp add: dict_item_def Let_def)
  next
    case (Some p)
    with Cons.prems have "t \<in> set tickers" by auto
    from Cons.IH [OF this Cons.prems(2)] Some show ?thesis
      by (simp add: dict_item_def Let_def)
  qed
qed

lemma rebalancing_raises:
  assumes "(t, h) \<in> set (holdings self)"
    and "\<not> present (get_current_price (fetcher self) t)"
  shows "\<exists>t'. fst (get_rebalancing_recommendations tw self) = Inl (KeyError t')"
proof -
  have "t \<notin> fst ` set (positions (fst (calculate_portfolio_value self)))"
    using keys_positions [of self] assms(2) by auto
  then have none: "map_of (positions (fst (calculate_portfolio_value self))) t = None"
    by (simp add: map_of_eq_None_iff)
  have t: "t \<in> set (map fst (holdings self))"
    using assms(1) by force
  show ?thesis
    using recommend_raises [OF t none] snd_calculate_portfolio_value [of self]
    by (auto simp: get_rebalancing_recommendations_def Let_def split: prod.splits)
qed

subsection \<open>Diversification\<close>














text \<open>With the identity for the rounding the valuation in doubles is the exact one.\<close>

lemma fround_id: "fround id x = x"
  by (cases x) simp_all

lemma rounded_id: "radd id = fadd" "rsub id = fsub" "rmul id = fmul" "rdiv id = fdiv"
  by (intro ext, simp add: radd_def rsub_def rmul_def rdiv_def fround_id)+

lemma make_position_fl_id: "make_position_fl id price h = make_position price h"
  unfolding make_position_fl_def make_position_def rounded_id by (rule refl)

lemma value_step_fl_id: "value_step_fl id f item acc = value_step f item acc"
  unfolding value_step_fl_def value_step_def make_position_fl_id rounded_id by (rule refl)

lemma calculate_portfolio_value_fl_id:
  "calculate_portfolio_value_fl id self = calculate_portfolio_value self"
proof -
  have "value_step_fl id (fetcher self) = value_step (fetcher self)"
    by (intro ext) (rule value_step_fl_id)
  moreover have "set_weight_fl id = set_weight"
    by (intro ext) (simp add: set_weight_fl_def set_weight_def rounded_id)
  ultimately show ?thesis
    by (simp add: calculate_portfolio_value_fl_def calculate_portfolio_value_def)
qed













end
